theory Spec2Isabelle
  imports Complex_Main "HOL-Library.Sublist"
begin

section \<open>Python strings\<close>

text \<open>
  A Python \<open>str\<close> is modelled as a \<open>string\<close>, one \<open>char\<close> per code point; the code
  points are those below 256. \<open>len\<close> is \<open>length\<close>, \<open>+\<close> is \<open>@\<close>, and an empty
  string is falsy.
\<close>

definition LF :: char where
  "LF = CHR 0x0A"

definition CR :: char where
  "CR = CHR 0x0D"

definition py_isspace :: "char \<Rightarrow> bool" where
  \<comment> \<open>the code points below 256 that \<open>str.isspace\<close> accepts\<close>
  "py_isspace c = (c \<in> set [CHR 0x09, CHR 0x0A, CHR 0x0B, CHR 0x0C, CHR 0x0D,
      CHR 0x1C, CHR 0x1D, CHR 0x1E, CHR 0x1F, CHR 0x20, CHR 0x85, CHR 0xA0])"

definition py_strip :: "string \<Rightarrow> string" where
  \<comment> \<open>\<open>s.strip()\<close>\<close>
  "py_strip s = rev (dropWhile py_isspace (rev (dropWhile py_isspace s)))"

fun cons_first :: "char \<Rightarrow> string list \<Rightarrow> string list" where
  "cons_first c [] = [[c]]"
| "cons_first c (p # ps) = (c # p) # ps"

fun split_blank :: "string \<Rightarrow> string list" where
  \<comment> \<open>\<open>text.split("\n\n")\<close>: the separator is matched left to right, without overlap\<close>
  "split_blank [] = [[]]"
| "split_blank [c] = [[c]]"
| "split_blank (a # b # cs) =
     (if a = LF \<and> b = LF then [] # split_blank cs
      else cons_first a (split_blank (b # cs)))"

section \<open>indexer.py: chunking and chunk identifiers\<close>

definition flush :: "string list \<Rightarrow> string \<Rightarrow> string list" where
  \<comment> \<open>\<open>if cur.strip(): chunks.append(cur.strip())\<close>\<close>
  "flush chunks cur = (if py_strip cur \<noteq> [] then chunks @ [py_strip cur] else chunks)"

fun chunk_loop :: "int \<Rightarrow> string list \<Rightarrow> string list \<Rightarrow> string \<Rightarrow> string list \<times> string" where
  \<comment> \<open>the \<open>for p in paragraphs\<close> loop of \<open>chunk_text\<close>, on the pair \<open>(chunks, cur)\<close>\<close>
  "chunk_loop max_chars [] chunks cur = (chunks, cur)"
| "chunk_loop max_chars (p # ps) chunks cur =
     (if int (length cur) + int (length p) > max_chars
      then chunk_loop max_chars ps (flush chunks cur) p
      else chunk_loop max_chars ps chunks (cur @ (if cur \<noteq> [] then [LF, LF] else []) @ p))"

definition chunk_text :: "string \<Rightarrow> int \<Rightarrow> string list" where
  "chunk_text text max_chars =
     (case chunk_loop max_chars (split_blank text) [] [] of
        (chunks, cur) \<Rightarrow> flush chunks cur)"

definition chunk_raw :: "string \<Rightarrow> string \<Rightarrow> string \<Rightarrow> string" where
  \<comment> \<open>the f-string \<open>f"{repo_url}|{file_path}|{chunk_text_}"\<close>\<close>
  "chunk_raw repo_url file_path chunk = repo_url @ ''|'' @ file_path @ ''|'' @ chunk"

definition make_chunk_id :: "(string \<Rightarrow> string) \<Rightarrow> string \<Rightarrow> string \<Rightarrow> string \<Rightarrow> string" where
  \<comment> \<open>\<open>sha1_hex raw\<close> stands for \<open>hashlib.sha1(raw.encode("utf-8")).hexdigest()\<close>, a library
      function that the model takes as a parameter\<close>
  "make_chunk_id sha1_hex repo_url file_path chunk = sha1_hex (chunk_raw repo_url file_path chunk)"

section \<open>review.py: the review event stream\<close>

fun splitlines_from :: "string \<Rightarrow> string \<Rightarrow> string list" where
  \<comment> \<open>\<open>(cur + s).splitlines()\<close> where \<open>cur\<close>, the line read so far, has no line break: the
      line breaks below code point 256 are \<open>\n \r \r\n \v \f \x1c \x1d \x1e \x85\<close>,
      and a final line break opens no empty last line\<close>
  "splitlines_from [] cur = (if cur = [] then [] else [cur])"
| "splitlines_from [c] cur =
     (if c \<in> set [LF, CR, CHR 0x0B, CHR 0x0C, CHR 0x1C, CHR 0x1D, CHR 0x1E, CHR 0x85]
      then [cur] else [cur @ [c]])"
| "splitlines_from (a # b # cs) cur =
     (if a = CR \<and> b = LF then cur # splitlines_from cs []
      else if a \<in> set [LF, CR, CHR 0x0B, CHR 0x0C, CHR 0x1C, CHR 0x1D, CHR 0x1E, CHR 0x85]
      then cur # splitlines_from (b # cs) []
      else splitlines_from (b # cs) (cur @ [a]))"

definition py_splitlines :: "string \<Rightarrow> string list" where
  "py_splitlines s = splitlines_from s []"

definition py_endswith :: "string \<Rightarrow> string \<Rightarrow> bool" where
  \<comment> \<open>\<open>s.endswith(suf)\<close>\<close>
  "py_endswith s suf = prefix (rev suf) (rev s)"

fun replace_from :: "string \<Rightarrow> string \<Rightarrow> nat \<Rightarrow> string \<Rightarrow> string" where
  \<comment> \<open>\<open>s.replace(old, new)\<close> for a non-empty \<open>old\<close>; the counter is the number of
      characters of a matched \<open>old\<close> still to be skipped\<close>
  "replace_from old new k [] = []"
| "replace_from old new (Suc k) (c # cs) = replace_from old new k cs"
| "replace_from old new 0 (c # cs) =
     (if prefix old (c # cs) then new @ replace_from old new (length old - 1) cs
      else c # replace_from old new 0 cs)"

definition py_replace :: "string \<Rightarrow> string \<Rightarrow> string \<Rightarrow> string" where
  "py_replace s old new = replace_from old new 0 s"

type_synonym cmd_result = "int \<times> string \<times> string"

datatype error =
    GitError string \<comment> \<open>raised by \<open>Repo.clone_from\<close> / \<open>git clone\<close>\<close>
  | DiffError string \<comment> \<open>\<open>Exception(f"Failed to get git diff: {err}")\<close>, holding \<open>err\<close>\<close>
  | LLMError string \<comment> \<open>raised by the chat completion client\<close>

text \<open>
  The processes and the file system are outside the program. A state \<open>'w\<close> of the outside
  world is threaded through the calls, and the operations on it are parameters:
  \<open>run_command cmd cwd\<close> is \<open>review.run_command\<close> (exit code, stdout, stderr),
  \<open>path_exists\<close> is \<open>os.path.exists\<close>, \<open>clone_from\<close> and \<open>pull\<close> are the GitPython calls
  (\<open>Some e\<close> when they raise), \<open>repos_dir\<close> is the absolute \<open>repos\<close> directory.
\<close>

record 'w env =
  run_command :: "string \<Rightarrow> string \<Rightarrow> 'w \<Rightarrow> cmd_result \<times> 'w"
  path_exists :: "string \<Rightarrow> 'w \<Rightarrow> bool"
  clone_from :: "string \<Rightarrow> string \<Rightarrow> 'w \<Rightarrow> error option \<times> 'w"
  pull :: "string \<Rightarrow> 'w \<Rightarrow> error option \<times> 'w"
  repos_dir :: string

definition repo_name :: "string \<Rightarrow> string" where
  \<comment> \<open>\<open>repo_url.rstrip("/").split("/")[-1].replace(".git", "")\<close>\<close>
  "repo_name repo_url =
     py_replace
       (rev (takeWhile (\<lambda>c. c \<noteq> CHR ''/'') (dropWhile (\<lambda>c. c = CHR ''/'') (rev repo_url))))
       ''.git'' []"

definition get_repo_path :: "'w env \<Rightarrow> string \<Rightarrow> 'w \<Rightarrow> (error + string) \<times> 'w" where
  \<comment> \<open>clone when the directory is missing (a failure propagates), else pull (a failure is
      only printed)\<close>
  "get_repo_path env repo_url w =
     (let repo_path = repos_dir env @ ''/'' @ repo_name repo_url in
      if \<not> path_exists env repo_path w then
        (case clone_from env repo_url repo_path w of
           (Some e, w1) \<Rightarrow> (Inl e, w1)
         | (None, w1) \<Rightarrow> (Inr repo_path, w1))
      else (Inr repo_path, snd (pull env repo_path w)))"

definition diff_command :: "bool \<Rightarrow> string" where
  "diff_command staged = (if staged then ''git diff --cached'' else ''git diff HEAD'')"

definition get_git_diff :: "'w env \<Rightarrow> string \<Rightarrow> bool \<Rightarrow> 'w \<Rightarrow> (error + string) \<times> 'w" where
  "get_git_diff env repo_path staged w =
     (case run_command env (diff_command staged) repo_path w of
        ((code, out, err), w1) \<Rightarrow>
          (if code \<noteq> 0 then (Inl (DiffError err), w1) else (Inr (py_strip out), w1)))"

datatype stage = before_fix | after_fix

datatype event =
    Info string \<comment> \<open>type "info": message\<close>
  | OriginalDiff string \<comment> \<open>type "original_diff": diff\<close>
  | ChangedFiles "string list" \<comment> \<open>type "changed_files": files\<close>
  | Lint "stage option" string string int \<comment> \<open>type "lint": stage, file, output, returncode\<close>
  | Bugcheck "stage option" string string int \<comment> \<open>type "bugcheck": the same fields\<close>
  | Autofix string bool string "int option"
      \<comment> \<open>type "autofix": file, fixed, output, and returncode when the tool failed\<close>
  | PostFixDiff string \<comment> \<open>type "post_fix_diff": diff\<close>
  | Warning string \<comment> \<open>type "warning": message\<close>

fun event_type :: "event \<Rightarrow> string" where
  "event_type (Info _) = ''info''"
| "event_type (OriginalDiff _) = ''original_diff''"
| "event_type (ChangedFiles _) = ''changed_files''"
| "event_type (Lint _ _ _ _) = ''lint''"
| "event_type (Bugcheck _ _ _ _) = ''bugcheck''"
| "event_type (Autofix _ _ _ _) = ''autofix''"
| "event_type (PostFixDiff _) = ''post_fix_diff''"
| "event_type (Warning _) = ''warning''"

fun event_file :: "event \<Rightarrow> string option" where
  "event_file (Lint _ f _ _) = Some f"
| "event_file (Bugcheck _ f _ _) = Some f"
| "event_file (Autofix f _ _ _) = Some f"
| "event_file _ = None"

fun with_stage :: "stage \<Rightarrow> event \<Rightarrow> event" where
  \<comment> \<open>\<open>{"stage": st, **record}\<close>\<close>
  "with_stage st (Lint _ f out code) = Lint (Some st) f out code"
| "with_stage st (Bugcheck _ f out code) = Bugcheck (Some st) f out code"
| "with_stage st e = e"

fun run_flake8_on_files :: "'w env \<Rightarrow> string \<Rightarrow> string list \<Rightarrow> 'w \<Rightarrow> event list \<times> 'w" where
  "run_flake8_on_files env repo_dir [] w = ([], w)"
| "run_flake8_on_files env repo_dir (f # files) w =
     (if py_endswith f ''.py'' then
        (case run_command env (''flake8 '' @ f) repo_dir w of
           ((code, out, err), w1) \<Rightarrow>
             (case run_flake8_on_files env repo_dir files w1 of
                (evs, w2) \<Rightarrow> (Lint None f (py_strip out) code # evs, w2)))
      else run_flake8_on_files env repo_dir files w)"

fun run_bug_checks :: "'w env \<Rightarrow> string \<Rightarrow> string list \<Rightarrow> 'w \<Rightarrow> event list \<times> 'w" where
  "run_bug_checks env repo_dir [] w = ([], w)"
| "run_bug_checks env repo_dir (f # files) w =
     (if py_endswith f ''.py'' then
        (case run_command env (''pylint --disable=R,C '' @ f) repo_dir w of
           ((code, out, err), w1) \<Rightarrow>
             (case run_bug_checks env repo_dir files w1 of
                (evs, w2) \<Rightarrow> (Bugcheck None f (py_strip out) code # evs, w2)))
      else run_bug_checks env repo_dir files w)"

fun auto_fix_files :: "'w env \<Rightarrow> string \<Rightarrow> string list \<Rightarrow> 'w \<Rightarrow> event list \<times> 'w" where
  "auto_fix_files env repo_dir [] w = ([], w)"
| "auto_fix_files env repo_dir (f # files) w =
     (if py_endswith f ''.py'' then
        (case run_command env (''autopep8 --in-place --aggressive --aggressive '' @ f) repo_dir w of
           ((code, out, err), w1) \<Rightarrow>
             (case auto_fix_files env repo_dir files w1 of
                (evs, w2) \<Rightarrow>
                  ((if code = 0 then Autofix f True (py_strip out) None
                    else Autofix f False (py_strip err) (Some code)) # evs, w2)))
      else auto_fix_files env repo_dir files w)"

definition changed_files_of :: "string \<Rightarrow> string list" where
  \<comment> \<open>\<open>[line.strip() for line in out.splitlines() if line.strip()]\<close>\<close>
  "changed_files_of out = map py_strip (filter (\<lambda>line. py_strip line \<noteq> []) (py_splitlines out))"

fun error_message :: "error \<Rightarrow> string" where
  \<comment> \<open>\<open>str(e)\<close>\<close>
  "error_message (GitError msg) = msg"
| "error_message (DiffError err) = ''Failed to get git diff: '' @ err"
| "error_message (LLMError msg) = msg"

definition post_fix_events :: "error + string \<Rightarrow> event list" where
  \<comment> \<open>the \<open>try\<close> block around the second \<open>get_git_diff\<close>\<close>
  "post_fix_events r =
     (case r of
        Inr post_diff \<Rightarrow> (if post_diff \<noteq> [] then [PostFixDiff post_diff] else [])
      | Inl e \<Rightarrow> [Warning (''Could not get post-fix diff: '' @ error_message e)])"

definition stream_review ::
  "'w env \<Rightarrow> string \<Rightarrow> bool \<Rightarrow> bool \<Rightarrow> 'w \<Rightarrow> (event list \<times> error option) \<times> 'w" where
  \<comment> \<open>the events the generator yields, in order, and the exception that ends it, if any\<close>
  "stream_review env repo_url staged auto_fix w =
     (case get_repo_path env repo_url w of
        (Inl e, w1) \<Rightarrow> (([], Some e), w1)
      | (Inr repo_dir, w1) \<Rightarrow>
     (case get_git_diff env repo_dir staged w1 of
        (Inl e, w2) \<Rightarrow> (([], Some e), w2)
      | (Inr diff_text, w2) \<Rightarrow>
     if diff_text = [] then (([Info ''No changes found to review.''], None), w2)
     else
     (case run_command env ''git diff --name-only HEAD'' repo_dir w2 of
        ((code, out, err), w3) \<Rightarrow>
     (let changed_files = changed_files_of out in
     (case run_flake8_on_files env repo_dir changed_files w3 of (lints, w4) \<Rightarrow>
     (case run_bug_checks env repo_dir changed_files w4 of (bugs, w5) \<Rightarrow>
     (let checks = [OriginalDiff diff_text, ChangedFiles changed_files]
            @ map (with_stage before_fix) lints @ map (with_stage before_fix) bugs in
      if auto_fix then
        (case auto_fix_files env repo_dir changed_files w5 of (fixes, w6) \<Rightarrow>
        (case run_flake8_on_files env repo_dir changed_files w6 of (lints2, w7) \<Rightarrow>
        (case run_bug_checks env repo_dir changed_files w7 of (bugs2, w8) \<Rightarrow>
        (case get_git_diff env repo_dir staged w8 of (post, w9) \<Rightarrow>
          ((checks @ [Info ''Applying automatic fixes...''] @ fixes
              @ [Info ''Re-running checks after fixes...'']
              @ map (with_stage after_fix) lints2 @ map (with_stage after_fix) bugs2
              @ post_fix_events post, None), w9)))))
      else ((checks, None), w5))))))))"

subsection \<open>A small outside world, for running the review on concrete inputs\<close>

record world =
  cmds :: "string list" \<comment> \<open>the commands run so far\<close>
  head_diff :: string \<comment> \<open>what \<open>git diff HEAD\<close> prints\<close>
  cached_diff :: string \<comment> \<open>what \<open>git diff --cached\<close> prints\<close>
  head_names :: string \<comment> \<open>what \<open>git diff --name-only HEAD\<close> prints\<close>
  checkouts :: "string list" \<comment> \<open>the directories that exist\<close>

definition demo_run :: "string \<Rightarrow> string \<Rightarrow> world \<Rightarrow> cmd_result \<times> world" where
  "demo_run cmd cwd w =
     ((if cmd = ''git diff HEAD'' then (0, head_diff w, [])
       else if cmd = ''git diff --cached'' then (0, cached_diff w, [])
       else if cmd = ''git diff --name-only HEAD'' then (0, head_names w, [])
       else if prefix ''flake8 '' cmd then (1, drop 7 cmd @ '':1:1: E302'' @ [LF], [])
       else (0, [], [])),
      w\<lparr>cmds := cmds w @ [cmd]\<rparr>)"

definition demo_env :: "world env" where
  "demo_env =
     \<lparr>run_command = demo_run,
      path_exists = (\<lambda>p w. p \<in> set (checkouts w)),
      clone_from = (\<lambda>url p w. (None, w\<lparr>checkouts := p # checkouts w\<rparr>)),
      pull = (\<lambda>p w. (None, w)),
      repos_dir = ''/srv''\<rparr>"

definition clean_world :: world where
  \<comment> \<open>a checkout with no change\<close>
  "clean_world =
     \<lparr>cmds = [], head_diff = [], cached_diff = [], head_names = [], checkouts = [''/srv/r'']\<rparr>"

definition edited_world :: world where
  \<comment> \<open>\<open>a.py\<close> is edited and staged, \<open>b.py\<close> is edited and not staged\<close>
  "edited_world =
     \<lparr>cmds = [],
      head_diff = ''+++ b/a.py'' @ [LF] @ ''+++ b/b.py'' @ [LF],
      cached_diff = ''+++ b/a.py'' @ [LF],
      head_names = ''a.py'' @ [LF] @ ''b.py'' @ [LF],
      checkouts = [''/srv/r'']\<rparr>"

definition one_file_world :: world where
  \<comment> \<open>\<open>a.py\<close> and \<open>notes.txt\<close> are edited, nothing is staged\<close>
  "one_file_world =
     \<lparr>cmds = [],
      head_diff = ''+++ b/a.py'' @ [LF] @ ''+++ b/notes.txt'' @ [LF],
      cached_diff = [],
      head_names = ''a.py'' @ [LF] @ ''notes.txt'' @ [LF],
      checkouts = [''/srv/r'']\<rparr>"

section \<open>agent.py: the review summarizer\<close>

datatype json =
    JNull
  | JBool bool
  | JNum int
  | JStr string
  | JArr "json list"
  | JObj "(string \<times> json) list"


definition brace_match :: "string \<Rightarrow> string option" where
  \<comment> \<open>\<open>re.search(r'\{.*\}', content, re.S)\<close>, as the matched text: with \<open>re.S\<close> the dot
      matches every character and the star is greedy, so the match runs from the first
      \<open>{\<close> to the last \<open>}\<close> after it\<close>
  "brace_match content =
     (let t = dropWhile (\<lambda>c. c \<noteq> CHR ''{'') content in
      if CHR ''}'' \<in> set t then Some (rev (dropWhile (\<lambda>c. c \<noteq> CHR ''}'') (rev t)))
      else None)"

definition unparseable_summary :: "string \<Rightarrow> json" where
  \<comment> \<open>the dictionary returned by the \<open>except\<close> branch\<close>
  "unparseable_summary content =
     JObj [(''summary'', JStr ''LLM summarization failed to parse. Returning raw content.''),
           (''issues'', JArr []),
           (''suggested_fixes'', JArr []),
           (''green_signal'', JBool False),
           (''confidence'', JStr ''low''),
           (''raw'', JStr content)]"

definition parse_summary :: "(string \<Rightarrow> json option) \<Rightarrow> string \<Rightarrow> json" where
  \<comment> \<open>the \<open>try\<close> block of \<open>summarize_review_events_with_llm\<close>; \<open>json_loads\<close> is the library's
      \<open>json.loads\<close>, \<open>None\<close> when it raises\<close>
  "parse_summary json_loads content =
     (case brace_match content of
        Some m \<Rightarrow>
          (case json_loads m of Some v \<Rightarrow> v | None \<Rightarrow> unparseable_summary content)
      | None \<Rightarrow>
          (case json_loads content of Some v \<Rightarrow> v | None \<Rightarrow> unparseable_summary content))"




definition json_loads_sample :: "string \<Rightarrow> json option" where
  \<comment> \<open>\<open>json.loads\<close> on the five documents used in the examples below. This sample parser
      rejects every other string; besides the five documents the examples apply it only to
      \<open>{}, {}\<close> and to the prose \<open>Looks fine to me.\<close>, which \<open>json.loads\<close> rejects too\<close>
  "json_loads_sample s =
     (if s = ''{}'' then Some (JObj [])
      else if s = ''[]'' then Some (JArr [])
      else if s = ''123'' then Some (JNum 123)
      else if s = ''[{}]'' then Some (JArr [JObj []])
      else if s = ''[{}, {}]'' then Some (JArr [JObj [], JObj []])
      else None)"

section \<open>qna.py and main.py: the QnA flow\<close>











subsection \<open>An outside world that records the calls of the chat completion service\<close>



section \<open>indexer.py: indexing with reset of a corrupted collection\<close>

type_synonym embedding = "int list"
  \<comment> \<open>a vector; the numbers stand for the floats, of which the program looks at the count
      and, in a truth test, at whether one is zero\<close>

record stored =
  document :: string
  metadata :: "string \<times> string" \<comment> \<open>the keys "repo" and "path"\<close>
  vector :: embedding

type_synonym collection = "string \<rightharpoonup> stored"

datatype store_op =
    DeleteCollection string
  | CreateCollection string
  | Upsert string string \<comment> \<open>collection name, identifier\<close>

text \<open>
  The vector store is outside the program. The client holds the collections by name and,
  for the statements about the order of operations, the list of the writes performed so
  far. Two things about the store are not fixed by the program and are part of the state:
  \<^item> which calls of \<open>col.get\<close> raise: \<open>read_raises k\<close> says whether the call number \<open>k\<close>
    does, and \<open>reads\<close> counts the calls made so far;
  \<^item> how the embeddings of a result are returned: as a list of lists, or as a
    two-dimensional numpy array (\<open>returns_arrays\<close>), which is what makes the first pass
    test \<open>len(embs) > 0\<close> instead of the truth value of \<open>embs\<close>.

  The embedding model and the writes (\<open>model.encode\<close>, \<open>col.upsert\<close>,
  \<open>client.create_collection\<close>) are taken to succeed: they are called outside every
  \<open>try\<close> block, so that an exception there ends \<open>index_repo\<close>, and the statements
  below are about the runs that return.
\<close>

record client =
  collections :: "string \<rightharpoonup> collection"
  oplog :: "store_op list"
  reads :: nat
  read_raises :: "nat \<Rightarrow> bool"
  returns_arrays :: bool

datatype emb_seq =
    PyList "embedding list" \<comment> \<open>a list of vectors\<close>
  | NdArray "embedding list" \<comment> \<open>a numpy array, given by its rows\<close>

fun rows_of :: "emb_seq \<Rightarrow> embedding list" where
  \<comment> \<open>the elements that \<open>len\<close>, \<open>zip\<close> and indexing see\<close>
  "rows_of (PyList rows) = rows"
| "rows_of (NdArray rows) = rows"

fun truth_value :: "emb_seq \<Rightarrow> bool option" where
  \<comment> \<open>the truth test that \<open>embs or [None]\<close> performs: a list is true when it is not empty;
      an array with more than one element raises ValueError (\<open>None\<close>), an array with one
      element is true when the element is not zero, an array with no element is false
      (numpy versions that raise there as well leave \<open>needs_update\<close> true all the same)\<close>
  "truth_value (PyList rows) = Some (rows \<noteq> [])"
| "truth_value (NdArray rows) =
     (if length (concat rows) > 1 then None
      else Some (concat rows \<noteq> [] \<and> concat rows \<noteq> [0]))"


definition get_or_create_collection :: "client \<Rightarrow> string \<Rightarrow> client" where
  \<comment> \<open>\<open>_get_or_create_collection\<close>; the handle it returns is the name\<close>
  "get_or_create_collection cl name =
     (case collections cl name of
        Some col \<Rightarrow> cl
      | None \<Rightarrow>
          cl\<lparr>collections := (collections cl)(name \<mapsto> Map.empty),
             oplog := oplog cl @ [CreateCollection name]\<rparr>)"





function batched :: "'a list \<Rightarrow> nat \<Rightarrow> 'a list list" where
  \<comment> \<open>\<open>_batched\<close>: the slices \<open>seq[i : i + n]\<close> for \<open>i\<close> in \<open>range(0, len(seq), n)\<close>, with
      \<open>n > 0\<close> (the program calls it with 256)\<close>
  "batched seq n = (if seq = [] \<or> n = 0 then [] else take n seq # batched (drop n seq) n)"
  by pat_completeness auto
termination
  by (relation "measure (\<lambda>(seq, n). length seq)") auto

declare batched.simps [simp del]

text \<open>
  What the indexer takes from outside: the hash, the embedding model, and the floating
  point numbers. The type \<open>'f\<close> stands for Python's floats: \<open>float_div b n\<close> is the true
  division \<open>b / n\<close> of two integers, \<open>float_ge\<close> is \<open>>=\<close>, \<open>float_zero\<close> is \<open>0.0\<close>, and
  \<open>RESET_THRESHOLD\<close> is the float read from \<open>CHROMA_RESET_THRESHOLD\<close> (default 0.6).
\<close>

record 'f indexer_deps =
  sha1_hex_of :: "string \<Rightarrow> string" \<comment> \<open>\<open>hashlib.sha1(raw.encode("utf-8")).hexdigest()\<close>\<close>
  encode :: "string \<Rightarrow> embedding" \<comment> \<open>\<open>model.encode(chunk).tolist()\<close>\<close>
  RESET_THRESHOLD :: 'f
  float_div :: "nat \<Rightarrow> nat \<Rightarrow> 'f"
  float_ge :: "'f \<Rightarrow> 'f \<Rightarrow> bool"
  float_zero :: 'f




definition build_worklist ::
  "'f indexer_deps \<Rightarrow> string \<Rightarrow> (string \<times> string) list \<Rightarrow> (string \<times> string \<times> string) list" where
  \<comment> \<open>the triples \<open>(fname, chunk, chunk_id)\<close> of all documents, in order\<close>
  "build_worklist deps repo_url docs =
     concat (map (\<lambda>(fname, text).
        map (\<lambda>chunk. (fname, chunk, make_chunk_id (sha1_hex_of deps) repo_url fname chunk))
          (chunk_text text 1000)) docs)"





definition check_existing ::
  "nat \<Rightarrow> (string list \<times> emb_seq) option \<Rightarrow> nat \<times> nat \<Rightarrow> bool \<times> nat \<times> nat" where
  \<comment> \<open>the \<open>try\<close> block of the second pass after the read, on \<open>(skipped, repaired)\<close>; the
      result is \<open>(needs_update, skipped, repaired)\<close>. \<open>needs_update\<close> starts true and stays
      true when the read or the truth test of \<open>embs or [None]\<close> raises\<close>
  "check_existing n_dim existing counters =
     (case counters of (skipped, repaired) \<Rightarrow>
      (case existing of
         None \<Rightarrow> (True, skipped, repaired)
       | Some (ids, embs) \<Rightarrow>
           if ids \<noteq> [] then
             (case truth_value embs of
                None \<Rightarrow> (True, skipped, repaired)
              | Some truthy \<Rightarrow>
                  (case (if truthy then rows_of embs else []) of
                     [] \<Rightarrow> (True, skipped, repaired + 1)
                   | emb0 # _ \<Rightarrow>
                       if length emb0 = n_dim then (False, skipped + 1, repaired)
                       else (True, skipped, repaired + 1)))
           else (True, skipped, repaired)))"




definition quiet :: "(nat \<Rightarrow> bool) \<Rightarrow> nat \<Rightarrow> nat \<Rightarrow> bool" where
  \<comment> \<open>none of the \<open>k\<close> reads that follow the first \<open>start\<close> reads raises\<close>
  "quiet raises start k = list_all (\<lambda>i. \<not> raises (start + i)) [0..<k]"


subsection \<open>A small store, for running the indexer on concrete inputs\<close>

definition demo_deps :: "rat indexer_deps" where
  \<comment> \<open>the identity in place of SHA-1, vectors of length 3, the default threshold, and
      exact fractions in place of floats: the runs below compare 2/3 and 1/3 with 0.6, and
      1 with 2.0, where the floats compare in the same way\<close>
  "demo_deps =
     \<lparr>sha1_hex_of = (\<lambda>raw. raw), encode = (\<lambda>chunk. [0, 0, 0]), RESET_THRESHOLD = 3 / 5,
      float_div = (\<lambda>b n. of_nat b / of_nat n), float_ge = (\<lambda>x y. x \<ge> y), float_zero = 0\<rparr>"


definition demo_docs :: "(string \<times> string) list" where
  "demo_docs = [(''readme.md'', ''A''), (''readme'', ''B''), (''contributing.md'', ''C'')]"





definition sha1_collision :: "(string \<Rightarrow> string) \<Rightarrow> string \<Rightarrow> string \<Rightarrow> bool" where
  \<comment> \<open>two different byte strings with the same digest\<close>
  "sha1_collision sha1_hex x y = (x \<noteq> y \<and> sha1_hex x = sha1_hex y)"

definition within_budget :: "int \<Rightarrow> string list \<Rightarrow> string \<Rightarrow> bool" where
  \<comment> \<open>what the chunker is meant to guarantee of a chunk \<open>c\<close>, given the paragraphs of the text:
      \<open>c\<close> fits the budget, or \<open>c\<close> is one (stripped) paragraph\<close>
  "within_budget max_chars paragraphs c =
     (int (length c) \<le> max_chars \<or> c \<in> set (map py_strip paragraphs))"

section \<open>Chunking\<close>

lemma length_py_strip: "length (py_strip s) \<le> length s"
proof -
  have "length (dropWhile py_isspace (rev (dropWhile py_isspace s)))
          \<le> length (rev (dropWhile py_isspace s))"
    by (rule length_dropWhile_le)
  moreover have "length (dropWhile py_isspace s) \<le> length s"
    by (rule length_dropWhile_le)
  ultimately show ?thesis
    by (simp add: py_strip_def)
qed

lemma chunk_loop_overshoot:
  assumes "\<forall>c \<in> set chunks. within_budget (m + 2) S c"
    and "cur = [] \<or> int (length cur) \<le> m + 2 \<or> cur \<in> set S"
    and "set ps \<subseteq> set S"
  shows "(\<forall>c \<in> set (fst (chunk_loop m ps chunks cur)). within_budget (m + 2) S c) \<and>
         (snd (chunk_loop m ps chunks cur) = [] \<or>
          int (length (snd (chunk_loop m ps chunks cur))) \<le> m + 2 \<or>
          snd (chunk_loop m ps chunks cur) \<in> set S)"
  using assms
proof (induction ps arbitrary: chunks cur)
  case Nil
  then show ?case by simp
next
  case (Cons p ps)
  have flushed: "\<forall>c \<in> set (flush chunks cur). within_budget (m + 2) S c"
  proof -
    have "within_budget (m + 2) S (py_strip cur)" if "py_strip cur \<noteq> []"
    proof -
      from that have "cur \<noteq> []" by (auto simp: py_strip_def)
      with Cons.prems(2) consider "int (length cur) \<le> m + 2" | "cur \<in> set S" by blast
      then show ?thesis
      proof cases
        case 1
        with length_py_strip [of cur] show ?thesis by (simp add: within_budget_def)
      next
        case 2
        then show ?thesis by (simp add: within_budget_def)
      qed
    qed
    with Cons.prems(1) show ?thesis by (auto simp: flush_def)
  qed
  show ?case
  proof (cases "int (length cur) + int (length p) > m")
    case True
    have "p \<in> set S" using Cons.prems(3) by simp
    then have "p = [] \<or> int (length p) \<le> m + 2 \<or> p \<in> set S" by simp
    moreover have "set ps \<subseteq> set S" using Cons.prems(3) by simp
    ultimately show ?thesis
      using Cons.IH [of "flush chunks cur" p] flushed True by simp
  next
    case False
    let ?cur = "cur @ (if cur \<noteq> [] then [LF, LF] else []) @ p"
    have "int (length ?cur) \<le> m + 2" using False by simp
    moreover have "set ps \<subseteq> set S" using Cons.prems(3) by simp
    ultimately show ?thesis
      using Cons.IH [of chunks ?cur] Cons.prems(1) False by simp
  qed
qed

lemma chunk_text_overshoot:
  "\<forall>c \<in> set (chunk_text text m). within_budget (m + 2) (split_blank text) c"
proof -
  let ?r = "chunk_loop m (split_blank text) [] []"
  have inv: "(\<forall>c \<in> set (fst ?r). within_budget (m + 2) (split_blank text) c) \<and>
             (snd ?r = [] \<or> int (length (snd ?r)) \<le> m + 2 \<or> snd ?r \<in> set (split_blank text))"
    by (rule chunk_loop_overshoot) simp_all
  have "within_budget (m + 2) (split_blank text) (py_strip (snd ?r))" if "py_strip (snd ?r) \<noteq> []"
  proof -
    from that have "snd ?r \<noteq> []" by (auto simp: py_strip_def)
    with inv consider "int (length (snd ?r)) \<le> m + 2" | "snd ?r \<in> set (split_blank text)"
      by blast
    then show ?thesis
    proof cases
      case 1
      with length_py_strip [of "snd ?r"] show ?thesis by (simp add: within_budget_def)
    next
      case 2
      then show ?thesis by (simp add: within_budget_def)
    qed
  qed
  moreover have "chunk_text text m = flush (fst ?r) (snd ?r)"
    by (simp add: chunk_text_def split: prod.splits)
  ultimately show ?thesis
    using inv by (auto simp: flush_def)
qed

text \<open>
  C4. \<open>chunk_text\<close> is meant to keep every chunk within the budget unless the chunk is a
  single over-long paragraph. The test \<open>len(cur) + len(p) > max_chars\<close> leaves the two
  characters of the separator out, so two paragraphs of 500 characters are packed, under
  the default budget of 1000, into one chunk of 1002 characters that is not a single
  paragraph. (By \<open>chunk_text_overshoot\<close> the excess is never more than those two
  characters.)
\<close>

theorem chunk_text_exceeds_budget:
  "chunk_text (replicate 500 CHR ''a'' @ [LF, LF] @ replicate 500 CHR ''b'') 1000 =
     [replicate 500 CHR ''a'' @ [LF, LF] @ replicate 500 CHR ''b''] \<and>
   split_blank (replicate 500 CHR ''a'' @ [LF, LF] @ replicate 500 CHR ''b'') =
     [replicate 500 CHR ''a'', replicate 500 CHR ''b''] \<and>
   length (replicate 500 CHR ''a'' @ [LF, LF] @ replicate 500 CHR ''b'') = 1002 \<and>
   \<not> within_budget 1000
       (split_blank (replicate 500 CHR ''a'' @ [LF, LF] @ replicate 500 CHR ''b''))
       (replicate 500 CHR ''a'' @ [LF, LF] @ replicate 500 CHR ''b'')"
  by code_simp

section \<open>Chunk identifiers\<close>

lemma chunk_raw_inj_repo: "chunk_raw r p t = chunk_raw r' p t \<Longrightarrow> r = r'"
  by (simp add: chunk_raw_def)

lemma chunk_raw_inj_path: "chunk_raw r p t = chunk_raw r p' t \<Longrightarrow> p = p'"
  by (simp add: chunk_raw_def)

lemma chunk_raw_inj_text: "chunk_raw r p t = chunk_raw r p t' \<Longrightarrow> t = t'"
  by (simp add: chunk_raw_def)

text \<open>
  C8. \<open>make_chunk_id\<close> depends on the triple (repository URL, file path, chunk text) only:
  equal triples give equal identifiers. When exactly one component is changed, the hashed
  string changes, so the two identifiers can only coincide through a SHA-1 collision
  between two different strings.
\<close>

theorem make_chunk_id_content_addressed:
  "((r, p, t) = (r', p', t') \<longrightarrow> make_chunk_id h r p t = make_chunk_id h r' p' t') \<and>
   (r \<noteq> r' \<and> make_chunk_id h r p t = make_chunk_id h r' p t \<longrightarrow>
      sha1_collision h (chunk_raw r p t) (chunk_raw r' p t)) \<and>
   (p \<noteq> p' \<and> make_chunk_id h r p t = make_chunk_id h r p' t \<longrightarrow>
      sha1_collision h (chunk_raw r p t) (chunk_raw r p' t)) \<and>
   (t \<noteq> t' \<and> make_chunk_id h r p t = make_chunk_id h r p t' \<longrightarrow>
      sha1_collision h (chunk_raw r p t) (chunk_raw r p t'))"
  using chunk_raw_inj_repo [of r p t r'] chunk_raw_inj_path [of r p t p']
    chunk_raw_inj_text [of r p t t']
  by (auto simp: make_chunk_id_def sha1_collision_def)

theorem make_chunk_id_content_addressed_witness:
  "make_chunk_id (\<lambda>raw. raw) ''https://h/r'' ''readme.md'' ''Install'' =
     ''https://h/r|readme.md|Install'' \<and>
   make_chunk_id (\<lambda>raw. raw) ''https://h/r'' ''readme.md'' ''Install'' \<noteq>
     make_chunk_id (\<lambda>raw. raw) ''https://h/q'' ''readme.md'' ''Install'' \<and>
   make_chunk_id (\<lambda>raw. raw) ''https://h/r'' ''readme.md'' ''Install'' \<noteq>
     make_chunk_id (\<lambda>raw. raw) ''https://h/r'' ''readme'' ''Install'' \<and>
   make_chunk_id (\<lambda>raw. raw) ''https://h/r'' ''readme.md'' ''Install'' \<noteq>
     make_chunk_id (\<lambda>raw. raw) ''https://h/r'' ''readme.md'' ''Usage''"
  using make_chunk_id_content_addressed [of "''https://h/r''" "''readme.md''" "''Install''"
      "''https://h/q''" "''readme''" "''Usage''" "\<lambda>raw. raw"]
  by (simp add: sha1_collision_def make_chunk_id_def chunk_raw_def)

section \<open>The review runners and the event stream\<close>

lemma run_flake8_py_only:
  "run_flake8_on_files env d files w =
   run_flake8_on_files env d (filter (\<lambda>f. py_endswith f ''.py'') files) w"
  by (induction files arbitrary: w) (simp_all add: case_prod_beta)

lemma run_bug_checks_py_only:
  "run_bug_checks env d files w =
   run_bug_checks env d (filter (\<lambda>f. py_endswith f ''.py'') files) w"
  by (induction files arbitrary: w) (simp_all add: case_prod_beta)

lemma auto_fix_py_only:
  "auto_fix_files env d files w =
   auto_fix_files env d (filter (\<lambda>f. py_endswith f ''.py'') files) w"
  by (induction files arbitrary: w) (simp_all add: case_prod_beta)

lemma run_flake8_files:
  "map event_file (fst (run_flake8_on_files env d files w)) =
   map Some (filter (\<lambda>f. py_endswith f ''.py'') files)"
  by (induction files arbitrary: w) (simp_all add: case_prod_beta)

lemma run_flake8_types:
  "map event_type (fst (run_flake8_on_files env d files w)) =
   map (\<lambda>f. ''lint'') (filter (\<lambda>f. py_endswith f ''.py'') files)"
  by (induction files arbitrary: w) (simp_all add: case_prod_beta)

lemma run_bug_checks_files:
  "map event_file (fst (run_bug_checks env d files w)) =
   map Some (filter (\<lambda>f. py_endswith f ''.py'') files)"
  by (induction files arbitrary: w) (simp_all add: case_prod_beta)

lemma run_bug_checks_types:
  "map event_type (fst (run_bug_checks env d files w)) =
   map (\<lambda>f. ''bugcheck'') (filter (\<lambda>f. py_endswith f ''.py'') files)"
  by (induction files arbitrary: w) (simp_all add: case_prod_beta)

lemma auto_fix_files_files:
  "map event_file (fst (auto_fix_files env d files w)) =
   map Some (filter (\<lambda>f. py_endswith f ''.py'') files)"
  by (induction files arbitrary: w) (simp_all add: case_prod_beta)

lemma auto_fix_files_types:
  "map event_type (fst (auto_fix_files env d files w)) =
   map (\<lambda>f. ''autofix'') (filter (\<lambda>f. py_endswith f ''.py'') files)"
  by (induction files arbitrary: w) (simp_all add: case_prod_beta)

lemma filter_py_example: "filter (\<lambda>f. py_endswith f ''.py'') [''a.py'', ''b.txt''] = [''a.py'']"
  by (simp add: py_endswith_def)

text \<open>
  C9. For every list of changed files, the lint runner, the bug-check runner and the
  autofix runner each yield one record per file whose name ends in \<open>.py\<close>, in the order of
  the list, and no record for another file; for \<open>["a.py", "b.txt"]\<close> each yields exactly
  one record, for \<open>a.py\<close>.
\<close>

theorem runners_python_files_only:
  "map event_file (fst (run_flake8_on_files env d files w)) =
     map Some (filter (\<lambda>f. py_endswith f ''.py'') files) \<and>
   map event_type (fst (run_flake8_on_files env d files w)) =
     map (\<lambda>f. ''lint'') (filter (\<lambda>f. py_endswith f ''.py'') files) \<and>
   map event_file (fst (run_bug_checks env d files w)) =
     map Some (filter (\<lambda>f. py_endswith f ''.py'') files) \<and>
   map event_type (fst (run_bug_checks env d files w)) =
     map (\<lambda>f. ''bugcheck'') (filter (\<lambda>f. py_endswith f ''.py'') files) \<and>
   map event_file (fst (auto_fix_files env d files w)) =
     map Some (filter (\<lambda>f. py_endswith f ''.py'') files) \<and>
   map event_type (fst (auto_fix_files env d files w)) =
     map (\<lambda>f. ''autofix'') (filter (\<lambda>f. py_endswith f ''.py'') files) \<and>
   map event_file (fst (run_flake8_on_files env d [''a.py'', ''b.txt''] w)) = [Some ''a.py''] \<and>
   map event_file (fst (run_bug_checks env d [''a.py'', ''b.txt''] w)) = [Some ''a.py''] \<and>
   map event_file (fst (auto_fix_files env d [''a.py'', ''b.txt''] w)) = [Some ''a.py'']"
  by (simp only: run_flake8_files run_flake8_types run_bug_checks_files run_bug_checks_types
      auto_fix_files_files auto_fix_files_types filter_py_example list.map simp_thms)

text \<open>
  C3. When the repository is fetched and the computed diff text is empty, the stream yields
  exactly one event, of type \<open>info\<close>, and ends without an exception, whatever the
  \<open>staged\<close> and \<open>auto_fix\<close> flags are.
\<close>

theorem stream_review_no_changes:
  assumes "get_repo_path env repo_url w = (Inr repo_dir, w1)"
    and "get_git_diff env repo_dir staged w1 = (Inr [], w2)"
  shows "stream_review env repo_url staged auto_fix w =
           (([Info ''No changes found to review.''], None), w2) \<and>
         map event_type (fst (fst (stream_review env repo_url staged auto_fix w))) = [''info'']"
  using assms by (simp add: stream_review_def)

theorem stream_review_no_changes_witness:
  "stream_review demo_env ''https://h/r'' True True clean_world =
     (([Info ''No changes found to review.''], None),
      clean_world\<lparr>cmds := [''git diff --cached'']\<rparr>) \<and>
   stream_review demo_env ''https://h/r'' False False clean_world =
     (([Info ''No changes found to review.''], None),
      clean_world\<lparr>cmds := [''git diff HEAD'']\<rparr>)"
proof -
  have repo: "get_repo_path demo_env ''https://h/r'' clean_world = (Inr ''/srv/r'', clean_world)"
    by code_simp
  have cached: "get_git_diff demo_env ''/srv/r'' True clean_world
      = (Inr [], clean_world\<lparr>cmds := [''git diff --cached'']\<rparr>)"
    by code_simp
  have head: "get_git_diff demo_env ''/srv/r'' False clean_world
      = (Inr [], clean_world\<lparr>cmds := [''git diff HEAD'']\<rparr>)"
    by code_simp
  show ?thesis
    using stream_review_no_changes [OF repo cached, of True]
      stream_review_no_changes [OF repo head, of False]
    by simp
qed

text \<open>
  C5. With \<open>auto_fix\<close> on, a non-empty diff, one changed Python file \<open>f\<close> and autopep8
  exiting with 0 on it, the stream is: \<open>original_diff\<close>, \<open>changed_files\<close>, the lint record of
  \<open>f\<close> at stage \<open>before_fix\<close>, its bug-check record at stage \<open>before_fix\<close>, an info
  notice, the autofix record with \<open>fixed = True\<close>, an info notice, the lint and bug-check
  records at stage \<open>after_fix\<close>, and last a \<open>post_fix_diff\<close> event when the recomputed diff
  is non-empty, or a \<open>warning\<close> event when recomputing it fails; no exception leaves the
  stream.
\<close>

theorem stream_review_auto_fix_order:
  assumes repo: "get_repo_path env repo_url w = (Inr d, w1)"
    and diff: "run_command env (diff_command staged) d w1 = ((0, dout, derr), w2)"
    and nonempty: "py_strip dout \<noteq> []"
    and names: "run_command env ''git diff --name-only HEAD'' d w2 = ((nc, nout, nerr), w3)"
    and one: "filter (\<lambda>f. py_endswith f ''.py'') (changed_files_of nout) = [f]"
    and lint1: "run_command env (''flake8 '' @ f) d w3 = ((lc, lout, lerr), w4)"
    and bug1: "run_command env (''pylint --disable=R,C '' @ f) d w4 = ((bc, bout, berr), w5)"
    and autofix: "run_command env (''autopep8 --in-place --aggressive --aggressive '' @ f) d w5
                = ((0, fout, ferr), w6)"
    and lint2: "run_command env (''flake8 '' @ f) d w6 = ((lc2, lout2, lerr2), w7)"
    and bug2: "run_command env (''pylint --disable=R,C '' @ f) d w7 = ((bc2, bout2, berr2), w8)"
    and post: "run_command env (diff_command staged) d w8 = ((pc, pout, perr), w9)"
  shows "stream_review env repo_url staged True w =
     (([OriginalDiff (py_strip dout),
        ChangedFiles (changed_files_of nout),
        Lint (Some before_fix) f (py_strip lout) lc,
        Bugcheck (Some before_fix) f (py_strip bout) bc,
        Info ''Applying automatic fixes...'',
        Autofix f True (py_strip fout) None,
        Info ''Re-running checks after fixes...'',
        Lint (Some after_fix) f (py_strip lout2) lc2,
        Bugcheck (Some after_fix) f (py_strip bout2) bc2]
       @ (if pc \<noteq> 0
          then [Warning (''Could not get post-fix diff: Failed to get git diff: '' @ perr)]
          else if py_strip pout \<noteq> [] then [PostFixDiff (py_strip pout)] else []),
       None), w9)"
proof -
  have py: "py_endswith f ''.py''"
  proof -
    have "f \<in> set (filter (\<lambda>f. py_endswith f ''.py'') (changed_files_of nout))"
      by (simp add: one)
    then show ?thesis by simp
  qed
  have d1: "get_git_diff env d staged w1 = (Inr (py_strip dout), w2)"
    by (simp add: get_git_diff_def diff)
  have l1: "run_flake8_on_files env d (changed_files_of nout) w3
              = ([Lint None f (py_strip lout) lc], w4)"
    by (subst run_flake8_py_only) (simp add: one py lint1 [simplified])
  have b1: "run_bug_checks env d (changed_files_of nout) w4
              = ([Bugcheck None f (py_strip bout) bc], w5)"
    by (subst run_bug_checks_py_only) (simp add: one py bug1 [simplified])
  have f1: "auto_fix_files env d (changed_files_of nout) w5
              = ([Autofix f True (py_strip fout) None], w6)"
    by (subst auto_fix_py_only) (simp add: one py autofix [simplified])
  have l2: "run_flake8_on_files env d (changed_files_of nout) w6
              = ([Lint None f (py_strip lout2) lc2], w7)"
    by (subst run_flake8_py_only) (simp add: one py lint2 [simplified])
  have b2: "run_bug_checks env d (changed_files_of nout) w7
              = ([Bugcheck None f (py_strip bout2) bc2], w8)"
    by (subst run_bug_checks_py_only) (simp add: one py bug2 [simplified])
  have d2: "get_git_diff env d staged w8
              = (if pc \<noteq> 0 then Inl (DiffError perr) else Inr (py_strip pout), w9)"
    by (simp add: get_git_diff_def post)
  show ?thesis
    by (simp add: stream_review_def repo d1 nonempty names l1 b1 f1 l2 b2 d2 post_fix_events_def)
qed

theorem stream_review_auto_fix_order_witness:
  "stream_review demo_env ''https://h/r'' False True one_file_world =
     (([OriginalDiff (''+++ b/a.py'' @ [LF] @ ''+++ b/notes.txt''),
        ChangedFiles [''a.py'', ''notes.txt''],
        Lint (Some before_fix) ''a.py'' ''a.py:1:1: E302'' 1,
        Bugcheck (Some before_fix) ''a.py'' [] 0,
        Info ''Applying automatic fixes...'',
        Autofix ''a.py'' True [] None,
        Info ''Re-running checks after fixes...'',
        Lint (Some after_fix) ''a.py'' ''a.py:1:1: E302'' 1,
        Bugcheck (Some after_fix) ''a.py'' [] 0,
        PostFixDiff (''+++ b/a.py'' @ [LF] @ ''+++ b/notes.txt'')],
       None),
      one_file_world\<lparr>cmds := [''git diff HEAD'', ''git diff --name-only HEAD'', ''flake8 a.py'',
        ''pylint --disable=R,C a.py'', ''autopep8 --in-place --aggressive --aggressive a.py'',
        ''flake8 a.py'', ''pylint --disable=R,C a.py'', ''git diff HEAD'']\<rparr>)"
proof -
  let ?d = "''/srv/r''"
  let ?w2 = "one_file_world\<lparr>cmds := [''git diff HEAD'']\<rparr>"
  let ?w3 = "one_file_world\<lparr>cmds := [''git diff HEAD'', ''git diff --name-only HEAD'']\<rparr>"
  let ?w4 = "one_file_world\<lparr>cmds := [''git diff HEAD'', ''git diff --name-only HEAD'',
    ''flake8 a.py'']\<rparr>"
  let ?w5 = "one_file_world\<lparr>cmds := [''git diff HEAD'', ''git diff --name-only HEAD'',
    ''flake8 a.py'', ''pylint --disable=R,C a.py'']\<rparr>"
  let ?w6 = "one_file_world\<lparr>cmds := [''git diff HEAD'', ''git diff --name-only HEAD'',
    ''flake8 a.py'', ''pylint --disable=R,C a.py'',
    ''autopep8 --in-place --aggressive --aggressive a.py'']\<rparr>"
  let ?w7 = "one_file_world\<lparr>cmds := [''git diff HEAD'', ''git diff --name-only HEAD'',
    ''flake8 a.py'', ''pylint --disable=R,C a.py'',
    ''autopep8 --in-place --aggressive --aggressive a.py'', ''flake8 a.py'']\<rparr>"
  let ?w8 = "one_file_world\<lparr>cmds := [''git diff HEAD'', ''git diff --name-only HEAD'',
    ''flake8 a.py'', ''pylint --disable=R,C a.py'',
    ''autopep8 --in-place --aggressive --aggressive a.py'', ''flake8 a.py'',
    ''pylint --disable=R,C a.py'']\<rparr>"
  let ?w9 = "one_file_world\<lparr>cmds := [''git diff HEAD'', ''git diff --name-only HEAD'',
    ''flake8 a.py'', ''pylint --disable=R,C a.py'',
    ''autopep8 --in-place --aggressive --aggressive a.py'', ''flake8 a.py'',
    ''pylint --disable=R,C a.py'', ''git diff HEAD'']\<rparr>"
  let ?diff = "''+++ b/a.py'' @ [LF] @ ''+++ b/notes.txt'' @ [LF]"
  let ?names = "''a.py'' @ [LF] @ ''notes.txt'' @ [LF]"
  let ?report = "''a.py:1:1: E302'' @ [LF]"
  have repo: "get_repo_path demo_env ''https://h/r'' one_file_world = (Inr ?d, one_file_world)"
    by code_simp
  have diff: "run_command demo_env (diff_command False) ?d one_file_world = ((0, ?diff, []), ?w2)"
    by code_simp
  have nonempty: "py_strip ?diff \<noteq> []"
    by code_simp
  have names: "run_command demo_env ''git diff --name-only HEAD'' ?d ?w2 = ((0, ?names, []), ?w3)"
    by code_simp
  have one: "filter (\<lambda>f. py_endswith f ''.py'') (changed_files_of ?names) = [''a.py'']"
    by code_simp
  have lint1: "run_command demo_env (''flake8 '' @ ''a.py'') ?d ?w3 = ((1, ?report, []), ?w4)"
    by code_simp
  have bug1: "run_command demo_env (''pylint --disable=R,C '' @ ''a.py'') ?d ?w4 = ((0, [], []), ?w5)"
    by code_simp
  have autofix: "run_command demo_env (''autopep8 --in-place --aggressive --aggressive '' @ ''a.py'')
      ?d ?w5 = ((0, [], []), ?w6)"
    by code_simp
  have lint2: "run_command demo_env (''flake8 '' @ ''a.py'') ?d ?w6 = ((1, ?report, []), ?w7)"
    by code_simp
  have bug2: "run_command demo_env (''pylint --disable=R,C '' @ ''a.py'') ?d ?w7 = ((0, [], []), ?w8)"
    by code_simp
  have post: "run_command demo_env (diff_command False) ?d ?w8 = ((0, ?diff, []), ?w9)"
    by code_simp
  have evals: "py_strip ?diff = ''+++ b/a.py'' @ [LF] @ ''+++ b/notes.txt''"
    "changed_files_of ?names = [''a.py'', ''notes.txt'']"
    "py_strip ?report = ''a.py:1:1: E302''" "py_strip [] = []"
    by code_simp+
  show ?thesis
    using stream_review_auto_fix_order
      [OF repo diff nonempty names one lint1 bug1 autofix lint2 bug2 post]
    by (simp only: evals) simp
qed

text \<open>
  C10. With a non-empty diff, the \<open>changed_files\<close> event lists the files printed by
  \<open>git diff --name-only HEAD\<close>, whatever the \<open>staged\<close> flag is, and the lint, bug-check and
  autofix runners are run on that list. With \<open>staged\<close> set, the list can therefore hold a file
  that the staged diff text does not mention: in the witness \<open>b.py\<close> is listed and checked
  although only \<open>a.py\<close> is staged.
\<close>

theorem stream_review_changed_files_from_head:
  assumes repo: "get_repo_path env repo_url w = (Inr d, w1)"
    and diff: "run_command env (diff_command staged) d w1 = ((0, dout, derr), w2)"
    and nonempty: "py_strip dout \<noteq> []"
    and names: "run_command env ''git diff --name-only HEAD'' d w2 = ((nc, nout, nerr), w3)"
  shows "\<exists>lints w4 bugs w5 rest.
           run_flake8_on_files env d (changed_files_of nout) w3 = (lints, w4) \<and>
           run_bug_checks env d (changed_files_of nout) w4 = (bugs, w5) \<and>
           fst (fst (stream_review env repo_url staged auto_fix w)) =
             [OriginalDiff (py_strip dout), ChangedFiles (changed_files_of nout)]
             @ map (with_stage before_fix) lints @ map (with_stage before_fix) bugs @ rest \<and>
           (if auto_fix
            then \<exists>fixes w6 rest'.
                   auto_fix_files env d (changed_files_of nout) w5 = (fixes, w6) \<and>
                   rest = Info ''Applying automatic fixes...'' # fixes @ rest'
            else rest = [])"
proof -
  have d1: "get_git_diff env d staged w1 = (Inr (py_strip dout), w2)"
    by (simp add: get_git_diff_def diff)
  obtain lints w4 where l: "run_flake8_on_files env d (changed_files_of nout) w3 = (lints, w4)"
    by (cases "run_flake8_on_files env d (changed_files_of nout) w3")
  obtain bugs w5 where b: "run_bug_checks env d (changed_files_of nout) w4 = (bugs, w5)"
    by (cases "run_bug_checks env d (changed_files_of nout) w4")
  show ?thesis
  proof (cases auto_fix)
    case False
    then show ?thesis
      by (simp add: stream_review_def repo d1 nonempty names l b)
  next
    case True
    obtain fx w6 where f: "auto_fix_files env d (changed_files_of nout) w5 = (fx, w6)"
      by (cases "auto_fix_files env d (changed_files_of nout) w5")
    obtain lints2 w7 where l2: "run_flake8_on_files env d (changed_files_of nout) w6 = (lints2, w7)"
      by (cases "run_flake8_on_files env d (changed_files_of nout) w6")
    obtain bugs2 w8 where b2: "run_bug_checks env d (changed_files_of nout) w7 = (bugs2, w8)"
      by (cases "run_bug_checks env d (changed_files_of nout) w7")
    obtain post w9 where p: "get_git_diff env d staged w8 = (post, w9)"
      by (cases "get_git_diff env d staged w8")
    from True show ?thesis
      by (simp add: stream_review_def repo d1 nonempty names l b f l2 b2 p)
  qed
qed

theorem stream_review_changed_files_from_head_witness:
  "fst (fst (stream_review demo_env ''https://h/r'' True False edited_world)) =
     [OriginalDiff ''+++ b/a.py'',
      ChangedFiles [''a.py'', ''b.py''],
      Lint (Some before_fix) ''a.py'' ''a.py:1:1: E302'' 1,
      Lint (Some before_fix) ''b.py'' ''b.py:1:1: E302'' 1,
      Bugcheck (Some before_fix) ''a.py'' [] 0,
      Bugcheck (Some before_fix) ''b.py'' [] 0]"
proof -
  let ?d = "''/srv/r''"
  let ?w2 = "edited_world\<lparr>cmds := [''git diff --cached'']\<rparr>"
  let ?w3 = "edited_world\<lparr>cmds := [''git diff --cached'', ''git diff --name-only HEAD'']\<rparr>"
  let ?w4 = "edited_world\<lparr>cmds := [''git diff --cached'', ''git diff --name-only HEAD'',
    ''flake8 a.py'', ''flake8 b.py'']\<rparr>"
  let ?w5 = "edited_world\<lparr>cmds := [''git diff --cached'', ''git diff --name-only HEAD'',
    ''flake8 a.py'', ''flake8 b.py'', ''pylint --disable=R,C a.py'',
    ''pylint --disable=R,C b.py'']\<rparr>"
  let ?names = "''a.py'' @ [LF] @ ''b.py'' @ [LF]"
  have repo: "get_repo_path demo_env ''https://h/r'' edited_world = (Inr ?d, edited_world)"
    by code_simp
  have diff: "run_command demo_env (diff_command True) ?d edited_world
      = ((0, ''+++ b/a.py'' @ [LF], []), ?w2)"
    by code_simp
  have nonempty: "py_strip (''+++ b/a.py'' @ [LF]) \<noteq> []"
    by code_simp
  have names: "run_command demo_env ''git diff --name-only HEAD'' ?d ?w2 = ((0, ?names, []), ?w3)"
    by code_simp
  have lints: "run_flake8_on_files demo_env ?d (changed_files_of ?names) ?w3 =
      ([Lint None ''a.py'' ''a.py:1:1: E302'' 1, Lint None ''b.py'' ''b.py:1:1: E302'' 1], ?w4)"
    by code_simp
  have bugs: "run_bug_checks demo_env ?d (changed_files_of ?names) ?w4 =
      ([Bugcheck None ''a.py'' [] 0, Bugcheck None ''b.py'' [] 0], ?w5)"
    by code_simp
  have evals: "py_strip (''+++ b/a.py'' @ [LF]) = ''+++ b/a.py''"
    "changed_files_of ?names = [''a.py'', ''b.py'']"
    by code_simp+
  from stream_review_changed_files_from_head [OF repo diff nonempty names, of False]
  obtain ls w4 bs w5 rest where
    a: "run_flake8_on_files demo_env ?d (changed_files_of ?names) ?w3 = (ls, w4)" and
    b: "run_bug_checks demo_env ?d (changed_files_of ?names) w4 = (bs, w5)" and
    c: "fst (fst (stream_review demo_env ''https://h/r'' True False edited_world)) =
          [OriginalDiff (py_strip (''+++ b/a.py'' @ [LF])), ChangedFiles (changed_files_of ?names)]
          @ map (with_stage before_fix) ls @ map (with_stage before_fix) bs @ rest" and
    d: "if False
        then \<exists>fixes w6 rest'.
               auto_fix_files demo_env ?d (changed_files_of ?names) w5 = (fixes, w6) \<and>
               rest = Info ''Applying automatic fixes...'' # fixes @ rest'
        else rest = []"
    by blast
  from a lints have ls: "ls = [Lint None ''a.py'' ''a.py:1:1: E302'' 1,
      Lint None ''b.py'' ''b.py:1:1: E302'' 1]" and w4: "w4 = ?w4"
    by simp_all
  from b bugs w4 have bs: "bs = [Bugcheck None ''a.py'' [] 0, Bugcheck None ''b.py'' [] 0]"
    by simp
  from d have rest: "rest = []"
    by simp
  show ?thesis
    unfolding c ls bs rest evals by simp
qed

section \<open>The review summarizer\<close>

lemma brace_match_decomp:
  assumes "brace_match content = Some m"
  shows "\<exists>pre mid post. content = pre @ m @ post \<and> m = CHR ''{'' # mid @ [CHR ''}''] \<and>
           CHR ''{'' \<notin> set pre \<and> CHR ''}'' \<notin> set post"
proof -
  let ?t = "dropWhile (\<lambda>c. c \<noteq> CHR ''{'') content"
  let ?pre = "takeWhile (\<lambda>c. c \<noteq> CHR ''{'') content"
  let ?post = "rev (takeWhile (\<lambda>c. c \<noteq> CHR ''}'') (rev ?t))"
  from assms have close: "CHR ''}'' \<in> set ?t"
    and m: "m = rev (dropWhile (\<lambda>c. c \<noteq> CHR ''}'') (rev ?t))"
    by (auto simp: brace_match_def Let_def split: if_splits)
  have content: "content = ?pre @ ?t" by simp
  have "rev ?t = takeWhile (\<lambda>c. c \<noteq> CHR ''}'') (rev ?t) @ dropWhile (\<lambda>c. c \<noteq> CHR ''}'') (rev ?t)"
    by simp
  then have "rev (rev ?t) = rev (takeWhile (\<lambda>c. c \<noteq> CHR ''}'') (rev ?t) @ dropWhile (\<lambda>c. c \<noteq> CHR ''}'') (rev ?t))"
    by (rule arg_cong)
  then have t: "?t = m @ ?post"
    by (simp only: rev_rev_ident rev_append m)
  have t_ne: "?t \<noteq> []"
  proof
    assume "?t = []"
    with close show False by (simp only: list.set empty_iff)
  qed
  then have hd_t: "hd ?t = CHR ''{''"
    using hd_dropWhile [of "\<lambda>c. c \<noteq> CHR ''{''" content] by simp
  have dw_ne: "dropWhile (\<lambda>c. c \<noteq> CHR ''}'') (rev ?t) \<noteq> []"
    using close by (simp add: dropWhile_eq_Nil_conv)
  then have m_ne: "m \<noteq> []" by (simp add: m)
  have last_m: "last m = CHR ''}''"
    using hd_dropWhile [OF dw_ne] dw_ne by (simp add: m last_rev)
  have hd_m: "hd m = CHR ''{''"
    using t m_ne hd_t by (metis hd_append2)
  obtain mid where mid: "m = CHR ''{'' # mid @ [CHR ''}'']"
  proof -
    from m_ne hd_m obtain r where r: "m = CHR ''{'' # r" by (cases m) auto
    with last_m have "r \<noteq> []" by auto
    with r last_m have "r = butlast r @ [CHR ''}'']"
      by (metis append_butlast_last_id last_ConsR)
    with r have "m = CHR ''{'' # butlast r @ [CHR ''}'']" by simp
    then show ?thesis by (rule that)
  qed
  have pre: "CHR ''{'' \<notin> set ?pre"
    using set_takeWhileD [of "CHR ''{''" "\<lambda>c. c \<noteq> CHR ''{''" content] by blast
  have post: "CHR ''}'' \<notin> set ?post"
    using set_takeWhileD [of "CHR ''}''" "\<lambda>c. c \<noteq> CHR ''}''" "rev ?t"] by auto
  from content t have "content = ?pre @ m @ ?post" by simp
  with mid pre post show ?thesis by blast
qed

lemma brace_match_found:
  assumes "CHR ''{'' \<notin> set pre" and "CHR ''}'' \<notin> set post"
  shows "brace_match (pre @ CHR ''{'' # mid @ CHR ''}'' # post) = Some (CHR ''{'' # mid @ [CHR ''}''])"
proof -
  have "\<And>x. x \<in> set pre \<Longrightarrow> x \<noteq> CHR ''{''"
    using assms(1) by blast
  then have "dropWhile (\<lambda>c. c \<noteq> CHR ''{'') (pre @ CHR ''{'' # mid @ CHR ''}'' # post)
            = dropWhile (\<lambda>c. c \<noteq> CHR ''{'') (CHR ''{'' # mid @ CHR ''}'' # post)"
    by (rule dropWhile_append2)
  then have t: "dropWhile (\<lambda>c. c \<noteq> CHR ''{'') (pre @ CHR ''{'' # mid @ CHR ''}'' # post)
            = CHR ''{'' # mid @ CHR ''}'' # post"
    by simp
  have "\<And>x. x \<in> set (rev post) \<Longrightarrow> x \<noteq> CHR ''}''"
    using assms(2) by auto
  then have "dropWhile (\<lambda>c. c \<noteq> CHR ''}'') (rev post @ CHR ''}'' # rev mid @ [CHR ''{''])
          = dropWhile (\<lambda>c. c \<noteq> CHR ''}'') (CHR ''}'' # rev mid @ [CHR ''{''])"
    by (rule dropWhile_append2)
  then have "dropWhile (\<lambda>c. c \<noteq> CHR ''}'') (rev (CHR ''{'' # mid @ CHR ''}'' # post))
          = CHR ''}'' # rev mid @ [CHR ''{'']"
    by simp
  then have "rev (dropWhile (\<lambda>c. c \<noteq> CHR ''}'') (rev (CHR ''{'' # mid @ CHR ''}'' # post)))
          = CHR ''{'' # mid @ [CHR ''}'']"
    by simp
  then show ?thesis
    unfolding brace_match_def t Let_def by simp
qed

lemma brace_match_None:
  assumes "brace_match content = None"
  shows "content \<noteq> pre @ CHR ''{'' # mid @ CHR ''}'' # post"
proof
  assume c: "content = pre @ CHR ''{'' # mid @ CHR ''}'' # post"
  let ?t = "dropWhile (\<lambda>c. c \<noteq> CHR ''{'') content"
  let ?pre = "takeWhile (\<lambda>c. c \<noteq> CHR ''{'') pre"
  have "?t = dropWhile (\<lambda>c. c \<noteq> CHR ''{'') pre @ CHR ''{'' # mid @ CHR ''}'' # post"
    unfolding c by (cases "CHR ''{'' \<in> set pre") (simp_all add: dropWhile_append1 dropWhile_append3)
  then have "CHR ''}'' \<in> set ?t" by simp
  with assms show False
    by (simp add: brace_match_def Let_def)
qed







text \<open>
  The order of the two parses is the reverse of "whole response first": the brace-delimited
  span is searched first and, when there is one, it alone is parsed. The response \<open>[{}]\<close>
  is valid JSON as a whole (a list holding one object) and the summarizer returns the
  object \<open>{}\<close> inside it; the response \<open>[{}, {}]\<close> is valid JSON as a whole and the
  summarizer returns the fallback summary, because the span \<open>{}, {}\<close> does not parse.
\<close>

theorem parse_summary_whole_counterexample:
  "json_loads_sample ''[{}]'' = Some (JArr [JObj []]) \<and>
   parse_summary json_loads_sample ''[{}]'' = JObj [] \<and>
   json_loads_sample ''[{}, {}]'' = Some (JArr [JObj [], JObj []]) \<and>
   parse_summary json_loads_sample ''[{}, {}]'' = unparseable_summary ''[{}, {}]''"
  by (simp add: parse_summary_def brace_match_def json_loads_sample_def)

text \<open>
  C7, as amended. The summarizer first searches the response for the span from its first
  \<open>{\<close> to its last \<open>}\<close>; when there is such a span it parses that span only, and returns
  the fallback summary when the span does not parse. Only a response with no such span is
  parsed as a whole. (A response that is itself such a span, \<open>pre = post = []\<close>, is
  parsed whole.)
\<close>

theorem parse_summary_brace_first:
  "(content = pre @ ''{'' @ mid @ ''}'' @ post \<and> CHR ''{'' \<notin> set pre \<and> CHR ''}'' \<notin> set post \<longrightarrow>
      parse_summary json_loads content =
        (case json_loads (''{'' @ mid @ ''}'') of
           Some v \<Rightarrow> v | None \<Rightarrow> unparseable_summary content)) \<and>
   ((\<forall>pre mid post. content \<noteq> pre @ ''{'' @ mid @ ''}'' @ post) \<longrightarrow>
      parse_summary json_loads content =
        (case json_loads content of
           Some v \<Rightarrow> v | None \<Rightarrow> unparseable_summary content))"
proof (intro conjI impI)
  assume "content = pre @ ''{'' @ mid @ ''}'' @ post \<and> CHR ''{'' \<notin> set pre \<and> CHR ''}'' \<notin> set post"
  then have "brace_match content = Some (CHR ''{'' # mid @ [CHR ''}''])"
    using brace_match_found [of pre post mid] by simp
  then show "parse_summary json_loads content =
        (case json_loads (''{'' @ mid @ ''}'') of
           Some v \<Rightarrow> v | None \<Rightarrow> unparseable_summary content)"
    by (simp add: parse_summary_def)
next
  assume none: "\<forall>pre mid post. content \<noteq> pre @ ''{'' @ mid @ ''}'' @ post"
  have "brace_match content = None"
  proof (cases "brace_match content")
    case None
    then show ?thesis .
  next
    case (Some m)
    from brace_match_decomp [OF Some] obtain pre mid post where
      "content = pre @ m @ post" and "m = CHR ''{'' # mid @ [CHR ''}'']"
      by blast
    then have "content = pre @ ''{'' @ mid @ ''}'' @ post" by simp
    with none show ?thesis by blast
  qed
  then show "parse_summary json_loads content =
        (case json_loads content of
           Some v \<Rightarrow> v | None \<Rightarrow> unparseable_summary content)"
    by (simp add: parse_summary_def)
qed

theorem parse_summary_brace_first_witness:
  "parse_summary json_loads_sample ''Verdict: {} (done)'' = JObj [] \<and>
   parse_summary json_loads_sample ''[]'' = JArr [] \<and>
   parse_summary json_loads_sample ''Looks fine to me.'' = unparseable_summary ''Looks fine to me.''"
proof -
  have a: "''Verdict: {} (done)'' = ''Verdict: '' @ ''{'' @ [] @ ''}'' @ '' (done)'' \<and>
      CHR ''{'' \<notin> set ''Verdict: '' \<and> CHR ''}'' \<notin> set '' (done)''"
    by simp
  have no_span: "\<forall>pre mid post. content \<noteq> pre @ ''{'' @ mid @ ''}'' @ post"
    if "CHR ''{'' \<notin> set content" for content
  proof (intro allI notI)
    fix pre mid post assume eq: "content = pre @ ''{'' @ mid @ ''}'' @ post"
    have "CHR ''{'' \<in> set (pre @ ''{'' @ mid @ ''}'' @ post)" by simp
    then have "CHR ''{'' \<in> set content" by (simp only: eq [symmetric])
    with that show False by simp
  qed
  have b: "\<forall>pre mid post. ''[]'' \<noteq> pre @ ''{'' @ mid @ ''}'' @ post"
    by (rule no_span) simp
  have c: "\<forall>pre mid post. ''Looks fine to me.'' \<noteq> pre @ ''{'' @ mid @ ''}'' @ post"
    by (rule no_span) simp
  from mp [OF conjunct1 [OF parse_summary_brace_first [of "''Verdict: {} (done)''" "''Verdict: ''"
        "[]" "'' (done)''" json_loads_sample]] a]
  have r1: "parse_summary json_loads_sample ''Verdict: {} (done)'' = JObj []"
    by (simp add: json_loads_sample_def)
  from mp [OF conjunct2 [OF parse_summary_brace_first [of "''[]''" _ _ _ json_loads_sample]] b]
  have r2: "parse_summary json_loads_sample ''[]'' = JArr []"
    by (simp add: json_loads_sample_def)
  from mp [OF conjunct2 [OF parse_summary_brace_first [of "''Looks fine to me.''" _ _ _
        json_loads_sample]] c]
  have r3: "parse_summary json_loads_sample ''Looks fine to me.''
      = unparseable_summary ''Looks fine to me.''"
    by (simp add: json_loads_sample_def)
  from r1 r2 r3 show ?thesis by (intro conjI)
qed

section \<open>The QnA flow\<close>




section \<open>Indexing and the reset of a corrupted collection\<close>

subsection \<open>Batches and the first pass\<close>

lemma batched_Nil [simp]: "batched [] n = []"
  by (subst batched.simps) simp











lemma quiet_0 [simp]: "quiet raises start 0"
  by (simp add: quiet_def)




lemma get_or_create_exists:
  "\<exists>col. collections (get_or_create_collection cl name) name = Some col"
  by (simp add: get_or_create_collection_def split: option.splits)




subsection \<open>The second pass\<close>


lemma check_existing_raised [simp]:
  "check_existing d None (s, r) = (True, s, r)"
  by (simp add: check_existing_def)







subsection \<open>The whole run\<close>




lemma demo_worklist: "build_worklist demo_deps ''https://h/r'' demo_docs =
    [(''readme.md'', ''A'', ''https://h/r|readme.md|A''),
     (''readme'', ''B'', ''https://h/r|readme|B''),
     (''contributing.md'', ''C'', ''https://h/r|contributing.md|C'')]"
  by code_simp












end
